theory Spec2Isabelle
  imports Complex_Main "HOL-Library.Product_Lexorder" "HOL-Library.Option_ord"
    "HOL-Library.List_Lexorder" "HOL-Library.Char_ord" "HOL-Library.AList"
begin

text \<open>
  A model of the lottery history crawler (\<^verbatim>\<open>data_engine.py\<close>) and of the statistics
  engine (\<^verbatim>\<open>stats_engine.py\<close>). What the programs take from their environment is an
  argument of the model: the file on disk, the answer of the network to a request, and
  the records that each month of a run yields. Exceptions are values of \<open>py_error\<close>,
  Python floats are the real numbers they approximate, and the rows of a frame are a
  list.
\<close>

section \<open>Data model\<close>

text \<open>
  A calendar date is the triple (year, month, day); the lexicographic order on triples is
  the order of \<^verbatim>\<open>datetime\<close> values at midnight, which is what the crawler compares.
\<close>

type_synonym pydate = "nat \<times> nat \<times> nat"

text \<open>
  One row of \<^verbatim>\<open>lottery_data/lottery_data.csv\<close>, with the columns that
  \<^verbatim>\<open>process_daily_cash_data\<close> writes. The column \<^verbatim>\<open>ad_date\<close> is kept as a date:
  the crawler converts it with \<^verbatim>\<open>pd.to_datetime\<close> when it loads the file and again
  before it sorts.
\<close>

record row =
  draw :: string
  date :: string
  ad_date :: pydate
  numbers :: string
  price :: int
  lottery_type :: string

datatype py_error = KeyError | ValueError | IndexError | AttributeError | TypeError

section \<open>Merge store: \<^verbatim>\<open>data_engine.py\<close>\<close>

text \<open>
  The file on disk: \<open>None\<close> when \<^verbatim>\<open>os.path.exists\<close> is false or \<^verbatim>\<open>pd.read_csv\<close>
  raises, otherwise the rows it holds. \<^verbatim>\<open>get_existing_data_df\<close> returns the empty
  frame in the first case.
\<close>

definition get_existing_data_df :: "row list option \<Rightarrow> row list" where
  "get_existing_data_df file = (case file of None \<Rightarrow> [] | Some rows \<Rightarrow> rows)"

text \<open>\<^verbatim>\<open>get_latest_ad_date\<close>: the maximum of the column, \<open>None\<close> on the empty frame.\<close>

definition get_latest_ad_date :: "row list \<Rightarrow> pydate option" where
  "get_latest_ad_date df =
     (case df of [] \<Rightarrow> None | r # rs \<Rightarrow> Some (fold (\<lambda>x m. max (ad_date x) m) rs (ad_date r)))"

text \<open>
  The test of line 139:
  \<^verbatim>\<open>latest_date_ad is None or datetime.fromisoformat(record['ad_date']) > latest_date_ad\<close>.
\<close>

definition is_newer :: "pydate option \<Rightarrow> row \<Rightarrow> bool" where
  "is_newer latest_date_ad record =
     (case latest_date_ad of None \<Rightarrow> True | Some l \<Rightarrow> l < ad_date record)"

text \<open>
  The inner \<^verbatim>\<open>for record in processed_list\<close> loop (lines 136 to 141): the state is
  \<^verbatim>\<open>all_new_records\<close> and \<^verbatim>\<open>new_count\<close>.
\<close>

fun collect_new :: "pydate option \<Rightarrow> row list \<Rightarrow> row list \<times> nat \<Rightarrow> row list \<times> nat" where
  "collect_new latest_date_ad [] st = st"
| "collect_new latest_date_ad (record # rest) (all_new_records, new_count) =
     (if is_newer latest_date_ad record
      then collect_new latest_date_ad rest (all_new_records @ [record], new_count + 1)
      else collect_new latest_date_ad rest (all_new_records, new_count))"

text \<open>
  The \<^verbatim>\<open>while current_month_iter <= current_date\<close> loop. Its iterations are given as the
  list of the \<^verbatim>\<open>processed_list\<close> of each month, in the order the months are visited; a
  month whose request failed, or whose payload had no \<^verbatim>\<open>daily539Res\<close>, runs no inner
  loop, as the empty list does.
\<close>

fun crawl_months :: "pydate option \<Rightarrow> row list list \<Rightarrow> row list \<times> nat \<Rightarrow> row list \<times> nat" where
  "crawl_months latest_date_ad [] st = st"
| "crawl_months latest_date_ad (processed_list # months) st =
     crawl_months latest_date_ad months (collect_new latest_date_ad processed_list st)"

text \<open>
  \<^verbatim>\<open>drop_duplicates(subset=['draw'])\<close>: a row is kept when its \<^verbatim>\<open>draw\<close> has not
  been seen in an earlier row.
\<close>

fun drop_duplicates :: "string list \<Rightarrow> row list \<Rightarrow> row list" where
  "drop_duplicates seen [] = []"
| "drop_duplicates seen (r # rs) =
     (if draw r \<in> set seen then drop_duplicates seen rs
      else r # drop_duplicates (draw r # seen) rs)"

text \<open>
  \<^verbatim>\<open>sort_values(by='ad_date')\<close>, ascending. pandas leaves the relative order of rows
  with equal dates to the sorting algorithm; the model keeps them in their order of
  arrival (a stable sort).
\<close>

definition sort_values :: "row list \<Rightarrow> row list" where
  "sort_values df = sort_key ad_date df"

datatype outcome = Updated nat nat | AlreadyUpToDate nat | NoData

text \<open>
  \<^verbatim>\<open>crawl_and_save_daily_cash\<close>, from the loaded file and the months' records to the
  frame handed to \<^verbatim>\<open>to_csv\<close> (\<open>None\<close> when \<^verbatim>\<open>to_csv\<close> is not called) and the
  message printed at the end. \<^verbatim>\<open>to_csv\<close> is called in the first branch only.
\<close>

definition crawl_and_save_daily_cash ::
  "row list option \<Rightarrow> row list list \<Rightarrow> row list option \<times> outcome" where
  "crawl_and_save_daily_cash file months =
     (let existing_df = get_existing_data_df file;
          latest_date_ad = get_latest_ad_date existing_df;
          (all_new_records, new_count) = crawl_months latest_date_ad months ([], 0)
      in if all_new_records \<noteq> []
         then (let combined_df = sort_values (drop_duplicates [] (existing_df @ all_new_records))
               in (Some combined_df, Updated new_count (length combined_df)))
         else if existing_df \<noteq> [] then (None, AlreadyUpToDate (length existing_df))
         else (None, NoData))"

text \<open>The file after the run: \<^verbatim>\<open>to_csv\<close> overwrites it, and nothing else touches it.\<close>

definition file_after :: "row list option \<Rightarrow> row list option \<times> outcome \<Rightarrow> row list option" where
  "file_after file res = (case fst res of None \<Rightarrow> file | Some df \<Rightarrow> Some df)"

text \<open>The table a later run, or the statistics engine, loads after this run.\<close>

definition merge :: "row list \<Rightarrow> row list list \<Rightarrow> row list" where
  "merge existing months =
     get_existing_data_df
       (file_after (Some existing) (crawl_and_save_daily_cash (Some existing) months))"

subsection \<open>The merge as the specification words it\<close>

text \<open>Removal of duplicate periods, keeping the first occurrence of each.\<close>

fun keep_first :: "row list \<Rightarrow> row list" where
  "keep_first [] = []"
| "keep_first (r # rs) = r # keep_first (filter (\<lambda>x. draw x \<noteq> draw r) rs)"

text \<open>The records whose date is strictly greater than the latest date of the table.\<close>

definition survivors :: "row list \<Rightarrow> row list \<Rightarrow> row list" where
  "survivors existing incoming =
     filter (\<lambda>r. case get_latest_ad_date existing of None \<Rightarrow> True | Some l \<Rightarrow> ad_date r > l)
       incoming"


text \<open>
  The invariants of the persisted table: periods are unique and the rows are in
  ascending order of date.
\<close>

definition table_ok :: "row list \<Rightarrow> bool" where
  "table_ok t \<longleftrightarrow> distinct (map draw t) \<and> sorted (map ad_date t)"

text \<open>Rows used in the examples below.\<close>

abbreviation row_a :: row where
  "row_a \<equiv> \<lparr>draw = ''113000001'', date = ''113/01/02'', ad_date = (2024, 1, 2),
     numbers = ''01,02,03,04,05'', price = 8000000, lottery_type = ''daily_cash''\<rparr>"

abbreviation row_b :: row where
  "row_b \<equiv> \<lparr>draw = ''113000002'', date = ''113/01/03'', ad_date = (2024, 1, 3),
     numbers = ''10,11,20,21,39'', price = 8000000, lottery_type = ''daily_cash''\<rparr>"

abbreviation row_c :: row where
  "row_c \<equiv> \<lparr>draw = ''113000003'', date = ''113/02/01'', ad_date = (2024, 2, 1),
     numbers = ''02,04,06,08,10'', price = 8000000, lottery_type = ''daily_cash''\<rparr>"

text \<open>A record that repeats the period of \<open>row_a\<close> under a later date.\<close>

abbreviation row_a_late :: row where
  "row_a_late \<equiv> \<lparr>draw = ''113000001'', date = ''113/02/02'', ad_date = (2024, 2, 2),
     numbers = ''01,02,03,04,05'', price = 8000000, lottery_type = ''daily_cash''\<rparr>"

section \<open>Fetcher: \<^verbatim>\<open>crawl_daily_cash\<close>\<close>

text \<open>
  What \<^verbatim>\<open>response.json()\<close> can return. Numbers are integers here; an object is the
  list of its members, each key once.
\<close>

datatype json = JNull | JBool bool | JInt int | JStr string | JArray "json list"
  | JObject "(string \<times> json) list"

text \<open>
  What the network gives for one request: \<^verbatim>\<open>session.get\<close> raises a
  \<^verbatim>\<open>RequestException\<close> (no connection, timeout), or a response arrives with its status
  code and a body that is JSON (\<open>Some\<close>) or not (\<open>None\<close>).
\<close>

datatype transport = RequestFailed | Response nat "json option"

text \<open>\<^verbatim>\<open>dict.get(key)\<close> and \<^verbatim>\<open>dict.get(key, default)\<close>.\<close>

definition dict_get :: "(string \<times> json) list \<Rightarrow> string \<Rightarrow> json \<Rightarrow> json" where
  "dict_get d key dflt = (case map_of d key of None \<Rightarrow> dflt | Some v \<Rightarrow> v)"

text \<open>\<^verbatim>\<open>x == 0\<close> in Python: true of the integer zero and of \<^verbatim>\<open>False\<close>.\<close>

fun py_eq_zero :: "json \<Rightarrow> bool" where
  "py_eq_zero (JInt n) = (n = 0)"
| "py_eq_zero (JBool b) = (\<not> b)"
| "py_eq_zero _ = False"

text \<open>
  \<^verbatim>\<open>crawl_daily_cash\<close>. \<^verbatim>\<open>raise_for_status\<close> raises \<^verbatim>\<open>HTTPError\<close>, a
  \<^verbatim>\<open>RequestException\<close>, on a status from 400 to 599; the JSON error of
  \<^verbatim>\<open>response.json()\<close> is caught by one of the two handlers. Both handlers return the
  empty dict. \<^verbatim>\<open>data.get\<close> exists on a dict only: on any other JSON value the attribute
  lookup raises \<^verbatim>\<open>AttributeError\<close>, which neither handler names.
\<close>

definition crawl_daily_cash :: "(string \<Rightarrow> transport) \<Rightarrow> string \<Rightarrow> py_error + json" where
  "crawl_daily_cash network year_month =
     (case network year_month of
        RequestFailed \<Rightarrow> Inr (JObject [])
      | Response status_code body \<Rightarrow>
          if 400 \<le> status_code \<and> status_code < 600 then Inr (JObject [])
          else (case body of
                  None \<Rightarrow> Inr (JObject [])
                | Some (JObject data) \<Rightarrow>
                    if py_eq_zero (dict_get data ''rtCode'' JNull)
                    then Inr (dict_get data ''content'' (JObject []))
                    else Inr (JObject [])
                | Some _ \<Rightarrow> Inl AttributeError))"

section \<open>Record normalizer: \<^verbatim>\<open>process_daily_cash_data\<close>\<close>

subsection \<open>Formatting and reading integers\<close>

definition digit_char :: "nat \<Rightarrow> char" where
  "digit_char n = ''0123456789'' ! n"

fun digits :: "nat \<Rightarrow> string" where
  "digits n = (if n < 10 then [digit_char n] else digits (n div 10) @ [digit_char (n mod 10)])"

text \<open>\<^verbatim>\<open>str(n)\<close> for an integer.\<close>

definition py_str :: "int \<Rightarrow> string" where
  "py_str n = (if n < 0 then CHR ''-'' # digits (nat (- n)) else digits (nat n))"

text \<open>\<^verbatim>\<open>f"{n:02d}"\<close>: zero padding up to the width 2, the sign counted in the width.\<close>

definition fmt02d :: "int \<Rightarrow> string" where
  "fmt02d n =
     (if n < 0 then CHR ''-'' # digits (nat (- n))
      else if n < 10 then CHR ''0'' # digits (nat n)
      else digits (nat n))"

text \<open>\<^verbatim>\<open>','.join(parts)\<close> and \<^verbatim>\<open>s.split(',')\<close>.\<close>

fun join_comma :: "string list \<Rightarrow> string" where
  "join_comma [] = []"
| "join_comma [s] = s"
| "join_comma (s # t # ts) = s @ CHR '','' # join_comma (t # ts)"


definition digit_val :: "char \<Rightarrow> nat option" where
  "digit_val c =
     (if CHR ''0'' \<le> c \<and> c \<le> CHR ''9'' then Some (of_char c - 48) else None)"

fun digits_val :: "nat \<Rightarrow> string \<Rightarrow> nat option" where
  "digits_val acc [] = Some acc"
| "digits_val acc (c # cs) =
     (case digit_val c of None \<Rightarrow> None | Some d \<Rightarrow> digits_val (10 * acc + d) cs)"


subsection \<open>Dates\<close>

text \<open>\<^verbatim>\<open>s.replace('T00:00:00', '')\<close>: every occurrence, from the left.\<close>

fun strip_midnight :: "string \<Rightarrow> string" where
  "strip_midnight [] = []"
| "strip_midnight (c # cs) =
     (if take 9 (c # cs) = ''T00:00:00'' then strip_midnight (drop 8 cs)
      else c # strip_midnight cs)"

definition is_leap :: "nat \<Rightarrow> bool" where
  "is_leap y \<longleftrightarrow> y mod 4 = 0 \<and> (y mod 100 \<noteq> 0 \<or> y mod 400 = 0)"

definition days_in_month :: "nat \<Rightarrow> nat \<Rightarrow> nat" where
  "days_in_month y m =
     (if m = 2 then (if is_leap y then 29 else 28)
      else if m \<in> {4, 6, 9, 11} then 30 else 31)"

text \<open>
  \<^verbatim>\<open>datetime.fromisoformat\<close> on the form \<^verbatim>\<open>YYYY-MM-DD\<close>, which is what is left of the
  API's \<^verbatim>\<open>lotteryDate\<close> once the midnight suffix is removed; a string of another shape,
  or one that names no calendar day, is a \<^verbatim>\<open>ValueError\<close>.
\<close>

definition fromisoformat :: "string \<Rightarrow> py_error + pydate" where
  "fromisoformat s =
     (if length s = 10 \<and> s ! 4 = CHR ''-'' \<and> s ! 7 = CHR ''-'' then
        (case (digits_val 0 (take 4 s), digits_val 0 (take 2 (drop 5 s)),
               digits_val 0 (drop 8 s)) of
           (Some y, Some m, Some d) \<Rightarrow>
             if 1 \<le> y \<and> 1 \<le> m \<and> m \<le> 12 \<and> 1 \<le> d \<and> d \<le> days_in_month y m
             then Inr (y, m, d) else Inl ValueError
         | _ \<Rightarrow> Inl ValueError)
      else Inl ValueError)"

subsection \<open>One raw item\<close>

text \<open>
  An item of \<^verbatim>\<open>daily539Res\<close>, with the three members the code reads, each of the type
  the API gives it; \<open>None\<close> is a member that is missing, on which the subscript raises
  \<^verbatim>\<open>KeyError\<close>. The period is a number or a string.
\<close>

datatype period_value = PInt int | PStr string

record raw_item =
  lotteryDate :: "string option"
  period :: "period_value option"
  drawNumberAppear :: "int list option"

fun str_period :: "period_value \<Rightarrow> string" where
  "str_period (PInt n) = py_str n"
| "str_period (PStr s) = s"

text \<open>The body of the \<^verbatim>\<open>try\<close> block, lines 61 to 77.\<close>

definition process_item :: "raw_item \<Rightarrow> py_error + row" where
  "process_item item =
     (case lotteryDate item of
        None \<Rightarrow> Inl KeyError
      | Some s \<Rightarrow>
          (case fromisoformat (strip_midnight s) of
             Inl e \<Rightarrow> Inl e
           | Inr (year, month, day) \<Rightarrow>
               (let tw_year = int year - 1911 in
                case period item of
                  None \<Rightarrow> Inl KeyError
                | Some p \<Rightarrow>
                    (case drawNumberAppear item of
                       None \<Rightarrow> Inl KeyError
                     | Some draw_numbers \<Rightarrow>
                         (let numbers = sort (take 5 draw_numbers) in
                          Inr \<lparr>draw = str_period p,
                               date = py_str tw_year @ ''/'' @ fmt02d (int month) @ ''/''
                                      @ fmt02d (int day),
                               ad_date = (year, month, day),
                               numbers = join_comma (map fmt02d numbers),
                               price = 8000000,
                               lottery_type = ''daily_cash''\<rparr>)))))"

text \<open>
  The loop over the raw items. The handler of line 79 takes \<^verbatim>\<open>KeyError\<close>,
  \<^verbatim>\<open>ValueError\<close> and \<^verbatim>\<open>IndexError\<close> and goes on to the next item; any other
  exception leaves the function.
\<close>

fun process_daily_cash_data :: "raw_item list \<Rightarrow> py_error + row list" where
  "process_daily_cash_data [] = Inr []"
| "process_daily_cash_data (item # raw_data) =
     (case process_item item of
        Inl e \<Rightarrow>
          if e \<in> {KeyError, ValueError, IndexError} then process_daily_cash_data raw_data
          else Inl e
      | Inr r \<Rightarrow>
          (case process_daily_cash_data raw_data of
             Inl e \<Rightarrow> Inl e
           | Inr processed_list \<Rightarrow> Inr (r # processed_list)))"

section \<open>Statistics engine: \<^verbatim>\<open>stats_engine.py\<close>\<close>



text \<open>
  The queries read the column \<^verbatim>\<open>numbers_list\<close> of \<^verbatim>\<open>self.df\<close> and nothing else, so
  the frame is given as that column, in the stored (ascending date) order.
\<close>

type_synonym frame = "int list list"

text \<open>
  \<^verbatim>\<open>DataFrame.tail(n)\<close>: the last \<open>n\<close> rows, no row at all for \<open>n = 0\<close>, and for a
  negative \<open>n\<close> every row but the first \<open>-n\<close>.
\<close>

definition tail :: "int \<Rightarrow> 'a list \<Rightarrow> 'a list" where
  "tail n df =
     (if n = 0 then [] else if 0 < n then drop (length df - nat n) df else drop (nat (- n)) df)"

definition get_latest_n_draws :: "'a list \<Rightarrow> int \<Rightarrow> 'a list" where
  "get_latest_n_draws df n = (if df = [] then [] else tail n df)"

text \<open>The first lines of every query: the whole frame, or its latest \<^verbatim>\<open>num_draws\<close> rows.\<close>

definition target_df :: "'a list \<Rightarrow> int option \<Rightarrow> 'a list" where
  "target_df df num_draws =
     (case num_draws of None \<Rightarrow> df | Some n \<Rightarrow> get_latest_n_draws df n)"

subsection \<open>Frequency and last digits\<close>

text \<open>\<^verbatim>\<open>pd.Series(xs).value_counts().sort_index()\<close>: each value that occurs, with its count.\<close>

definition value_counts :: "int list \<Rightarrow> (int \<times> nat) list" where
  "value_counts xs = map (\<lambda>v. (v, count_list xs v)) (sort (remdups xs))"

text \<open>
  \<^verbatim>\<open>Series.update\<close>: the entries of the receiver whose index the other series has take
  the other's value; no index is added.
\<close>

definition series_update :: "(int \<times> nat) list \<Rightarrow> (int \<times> nat) list \<Rightarrow> (int \<times> nat) list" where
  "series_update full other =
     map (\<lambda>(k, v). case map_of other k of None \<Rightarrow> (k, v) | Some c \<Rightarrow> (k, c)) full"

definition calculate_frequency :: "frame \<Rightarrow> int option \<Rightarrow> (int \<times> nat) list" where
  "calculate_frequency df num_draws =
     (let target = target_df df num_draws in
      if target = [] then []
      else (let all_numbers = concat target;
                frequency = value_counts all_numbers;
                full_range_freq = map (\<lambda>k. (k, 0)) [1..39]
            in series_update full_range_freq frequency))"

definition analyze_last_digits :: "frame \<Rightarrow> int option \<Rightarrow> (int \<times> nat) list" where
  "analyze_last_digits df num_draws =
     (let target = target_df df num_draws in
      if target = [] then []
      else (let all_last_digits = concat (map (map (\<lambda>n. n mod 10)) target);
                last_digit_frequency = value_counts all_last_digits;
                full_range_freq = map (\<lambda>k. (k, 0)) [0..9]
            in series_update full_range_freq last_digit_frequency))"

subsection \<open>Results that are dicts with string keys\<close>

text \<open>
  The values such a dict holds. \<open>PyFloat\<close> carries the exact real number that the Python
  float approximates; \<open>PyNaN\<close> is the float that is not a number.
\<close>

datatype pyval = PyNone | PyNaN | PyInt int | PyFloat real | PyIntList "int list"
  | PyStrList "string list" | PyDict "(string \<times> nat) list"

text \<open>\<^verbatim>\<open>d[key]\<close>.\<close>

definition py_getitem :: "(string \<times> pyval) list \<Rightarrow> string \<Rightarrow> py_error + pyval" where
  "py_getitem d key = (case map_of d key of None \<Rightarrow> Inl KeyError | Some v \<Rightarrow> Inr v)"

text \<open>\<^verbatim>\<open>d[k] = d.get(k, 0) + 1\<close>; a new key goes to the end.\<close>

definition dict_incr :: "(string \<times> nat) list \<Rightarrow> string \<Rightarrow> (string \<times> nat) list" where
  "dict_incr d k = AList.update k ((case map_of d k of None \<Rightarrow> 0 | Some c \<Rightarrow> c) + 1) d"

subsection \<open>Sum analysis\<close>

definition mean :: "int list \<Rightarrow> real" where
  "mean xs = real_of_int (sum_list xs) / real (length xs)"

definition median :: "int list \<Rightarrow> real" where
  "median xs =
     (let s = sort xs; n = length s in
      if odd n then real_of_int (s ! (n div 2))
      else (real_of_int (s ! (n div 2 - 1)) + real_of_int (s ! (n div 2))) / 2)"

text \<open>\<^verbatim>\<open>Series.std()\<close>: the sample standard deviation, not a number for a single value.\<close>

definition std :: "int list \<Rightarrow> pyval" where
  "std xs =
     (if length xs < 2 then PyNaN
      else PyFloat (sqrt (sum_list (map (\<lambda>x. (real_of_int x - mean xs)\<^sup>2) xs)
                          / real (length xs - 1))))"

definition calculate_sum_analysis :: "frame \<Rightarrow> int option \<Rightarrow> (string \<times> pyval) list" where
  "calculate_sum_analysis df num_draws =
     (let target = target_df df num_draws in
      if target = [] then
        [(''sums'', PyIntList []), (''mean_sum'', PyNone), (''median_sum'', PyNone),
         (''std_dev_sum'', PyNone), (''min_sum'', PyNone), (''max_sum'', PyNone)]
      else (let sums' = map sum_list target in
        [(''sums'', PyIntList sums'), (''mean_sum'', PyFloat (mean sums')),
         (''median_sum'', PyFloat (median sums')), (''std_dev_sum'', std sums'),
         (''min_sum'', PyInt (fold min sums' (hd sums'))),
         (''max_sum'', PyInt (fold max sums' (hd sums')))]))"

subsection \<open>Odd/even and big/small ratios\<close>

text \<open>
  The labels use four Chinese characters, given here by their UTF-8 bytes (the byte order
  of UTF-8 strings is the code point order Python sorts by).
\<close>

definition odd_mark :: string where "odd_mark = [CHR 0xE5, CHR 0xA5, CHR 0x87]"
definition even_mark :: string where "even_mark = [CHR 0xE5, CHR 0x81, CHR 0xB6]"
definition big_mark :: string where "big_mark = [CHR 0xE5, CHR 0xA4, CHR 0xA7]"
definition small_mark :: string where "small_mark = [CHR 0xE5, CHR 0xB0, CHR 0x8F]"

text \<open>\<^verbatim>\<open>sum(1 for n in numbers if P(n))\<close>.\<close>

definition count_if :: "(int \<Rightarrow> bool) \<Rightarrow> int list \<Rightarrow> int" where
  "count_if P nums = int (length (filter P nums))"

text \<open>
  The loop over the rows, lines 116 to 129; the state is the two lists of ratio strings
  and the two count dicts.
\<close>

fun ratios_loop ::
  "frame \<Rightarrow> string list \<times> string list \<times> (string \<times> nat) list \<times> (string \<times> nat) list
     \<Rightarrow> string list \<times> string list \<times> (string \<times> nat) list \<times> (string \<times> nat) list" where
  "ratios_loop [] st = st"
| "ratios_loop (nums # rows)
     (odd_even_ratios, big_small_ratios, odd_even_counts, big_small_counts) =
     (let odd_count = count_if (\<lambda>n. n mod 2 \<noteq> 0) nums;
          even_count = 5 - odd_count;
          small_count = count_if (\<lambda>n. 1 \<le> n \<and> n \<le> 19) nums;
          big_count = 5 - small_count
      in ratios_loop rows
           (odd_even_ratios @ [py_str odd_count @ '':'' @ py_str even_count],
            big_small_ratios @ [py_str big_count @ '':'' @ py_str small_count],
            dict_incr odd_even_counts
              (py_str odd_count @ odd_mark @ py_str even_count @ even_mark),
            dict_incr big_small_counts
              (py_str big_count @ big_mark @ py_str small_count @ small_mark)))"

definition calculate_odd_even_big_small_ratios ::
  "frame \<Rightarrow> int option \<Rightarrow> (string \<times> pyval) list" where
  "calculate_odd_even_big_small_ratios df num_draws =
     (let target = target_df df num_draws in
      if target = [] then
        [(''odd_even_ratios'', PyStrList []), (''big_small_ratios'', PyStrList []),
         (''odd_even_counts'', PyDict []), (''big_small_counts'', PyDict [])]
      else (case ratios_loop target ([], [], [], []) of
              (odd_even_ratios, big_small_ratios, odd_even_counts, big_small_counts) \<Rightarrow>
        [(''odd_even_ratios'', PyStrList odd_even_ratios),
         (''big_small_ratios'', PyStrList big_small_ratios),
         (''odd_even_distribution'', PyDict (sort odd_even_counts)),
         (''big_small_distribution'', PyDict (sort big_small_counts))]))"

subsection \<open>Consecutive numbers\<close>

definition pattern :: "int \<Rightarrow> int \<Rightarrow> string" where
  "pattern a b = fmt02d a @ '','' @ fmt02d b"

text \<open>
  The inner loop over \<^verbatim>\<open>i in range(len(numbers) - 1)\<close>, on the sorted numbers: the
  state is the pattern dict and the flag \<^verbatim>\<open>has_consecutive\<close>.
\<close>

fun scan_pairs :: "int list \<Rightarrow> (string \<times> nat) list \<times> bool \<Rightarrow> (string \<times> nat) list \<times> bool" where
  "scan_pairs (a # b # rest) (consecutive_patterns, has_consecutive) =
     (if b - a = 1
      then scan_pairs (b # rest) (dict_incr consecutive_patterns (pattern a b), True)
      else scan_pairs (b # rest) (consecutive_patterns, has_consecutive))"
| "scan_pairs nums st = st"

text \<open>The loop over the rows, lines 152 to 161.\<close>

fun consecutive_loop :: "frame \<Rightarrow> (string \<times> nat) list \<times> nat \<Rightarrow> (string \<times> nat) list \<times> nat" where
  "consecutive_loop [] st = st"
| "consecutive_loop (nums # rows) (consecutive_patterns, total_draws_with_consecutive) =
     (case scan_pairs (sort nums) (consecutive_patterns, False) of
        (consecutive_patterns', has_consecutive) \<Rightarrow>
          consecutive_loop rows
            (consecutive_patterns',
             if has_consecutive then total_draws_with_consecutive + 1
             else total_draws_with_consecutive))"

definition analyze_consecutive_numbers :: "frame \<Rightarrow> int option \<Rightarrow> (string \<times> pyval) list" where
  "analyze_consecutive_numbers df num_draws =
     (let target = target_df df num_draws in
      if target = [] then
        [(''consecutive_patterns'', PyDict []), (''total_draws_with_consecutive'', PyInt 0)]
      else (case consecutive_loop target ([], 0) of
              (consecutive_patterns, total_draws_with_consecutive) \<Rightarrow>
        [(''consecutive_patterns'', PyDict (sort consecutive_patterns)),
         (''total_draws_with_consecutive'', PyInt (int total_draws_with_consecutive)),
         (''percentage_with_consecutive'',
            if 0 < length target
            then PyFloat (real total_draws_with_consecutive / real (length target) * 100)
            else PyInt 0)]))"





text \<open>The three draws of the specification's scenario.\<close>

abbreviation scenario :: frame where
  "scenario \<equiv> [[1, 2, 3, 4, 5], [10, 11, 20, 21, 39], [2, 4, 6, 8, 10]]"




section \<open>Properties of the merge store\<close>

text \<open>The two loops collect, in order, the incoming records that pass the date test.\<close>

lemma collect_new_filter:
  "collect_new l ps (acc, n) =
     (acc @ filter (is_newer l) ps, n + length (filter (is_newer l) ps))"
  by (induction ps arbitrary: acc n) auto

lemma crawl_months_filter:
  "crawl_months l ms (acc, n) =
     (acc @ filter (is_newer l) (concat ms), n + length (filter (is_newer l) (concat ms)))"
  by (induction ms arbitrary: acc n) (auto simp: collect_new_filter)

lemma is_newer_survivors:
  "filter (is_newer (get_latest_ad_date t)) xs = survivors t xs"
  by (auto simp: survivors_def is_newer_def intro!: filter_cong split: option.splits)

text \<open>Dropping rows whose period was seen keeps the first row of each period.\<close>

lemma drop_duplicates_keep_first:
  "drop_duplicates seen rs = keep_first (filter (\<lambda>x. draw x \<notin> set seen) rs)"
proof (induction rs arbitrary: seen)
  case Nil
  then show ?case by simp
next
  case (Cons r rs)
  have "filter (\<lambda>x. draw x \<notin> set (draw r # seen)) rs =
        filter (\<lambda>x. draw x \<noteq> draw r) (filter (\<lambda>x. draw x \<notin> set seen) rs)"
    by (auto intro: filter_cong)
  with Cons show ?case by simp
qed

lemma keep_first_distinct: "distinct (map draw rs) \<Longrightarrow> keep_first rs = rs"
proof (induction rs)
  case Nil
  then show ?case by simp
next
  case (Cons r rs)
  from Cons.prems have "\<forall>x\<in>set rs. draw x \<noteq> draw r"
    by (auto simp: image_iff)
  then have "filter (\<lambda>x. draw x \<noteq> draw r) rs = rs"
    by (simp add: filter_id_conv)
  with Cons show ?case by simp
qed

lemma get_latest_Max:
  "df \<noteq> [] \<Longrightarrow> get_latest_ad_date df = Some (Max (set (map ad_date df)))"
proof (cases df)
  case Nil
  assume "df \<noteq> []" with Nil show ?thesis by simp
next
  case (Cons r rs)
  have "fold (\<lambda>x m. max (ad_date x) m) rs (ad_date r) = fold max (map ad_date rs) (ad_date r)"
    by (simp add: fold_map comp_def)
  also have "\<dots> = Max (set (ad_date r # map ad_date rs))"
    by (simp only: Max.set_eq_fold)
  finally show ?thesis using Cons by (simp add: get_latest_ad_date_def)
qed

text \<open>The run in closed form, and the table it leaves for any existing table.\<close>

lemma crawl_and_save_eq:
  "crawl_and_save_daily_cash file months =
     (let t = get_existing_data_df file; s = survivors t (concat months)
      in if s \<noteq> []
         then (Some (sort_key ad_date (keep_first (t @ s))),
               Updated (length s) (length (keep_first (t @ s))))
         else if t \<noteq> [] then (None, AlreadyUpToDate (length t)) else (None, NoData))"
  by (simp add: crawl_and_save_daily_cash_def crawl_months_filter is_newer_survivors
      sort_values_def drop_duplicates_keep_first Let_def)

lemma merge_eq:
  "merge t months =
     (if survivors t (concat months) = [] then t
      else sort_key ad_date (keep_first (t @ survivors t (concat months))))"
  by (simp add: merge_def crawl_and_save_eq file_after_def get_existing_data_df_def Let_def)


lemma get_latest_cases:
  "get_latest_ad_date df = (if df = [] then None else Some (Max (ad_date ` set df)))"
  using get_latest_Max [of df] by (auto simp: get_latest_ad_date_def)


lemma set_keep_first_subset: "set (keep_first rs) \<subseteq> set rs"
  by (induction rs rule: keep_first.induct) auto

lemma draws_keep_first: "draw ` set (keep_first rs) = draw ` set rs"
proof (induction rs rule: keep_first.induct)
  case 1
  then show ?case by simp
next
  case (2 r rs)
  then show ?case by (auto simp: image_iff)
qed

lemma distinct_keep_first: "distinct (map draw (keep_first rs))"
proof (induction rs rule: keep_first.induct)
  case 1
  then show ?case by simp
next
  case (2 r rs)
  have "draw r \<notin> draw ` set (keep_first (filter (\<lambda>x. draw x \<noteq> draw r) rs))"
    by (auto simp: draws_keep_first)
  with 2 show ?case by simp
qed

lemma distinct_draw_sort_key:
  "distinct (map draw (sort_key ad_date rs)) = distinct (map draw rs)"
  by (simp add: distinct_map)

text \<open>
  Every table a run writes meets the invariants of the persisted table, so that every
  table the store holds does.
\<close>

lemma table_ok_combined: "table_ok (sort_key ad_date (keep_first rs))"
  by (simp add: table_ok_def distinct_draw_sort_key distinct_keep_first)

lemma table_ok_merge: "table_ok t \<Longrightarrow> table_ok (merge t months)"
  by (simp add: merge_eq table_ok_combined)

lemma max_option_simps:
  "max None (y :: pydate option) = y" "max (x :: pydate option) None = x"
  "max (Some a) (Some b) = Some (max a (b :: pydate))"
  by (auto simp: max_def dest: less_eq_option_None_is_None)

lemma latest_None_iff: "get_latest_ad_date t = None \<longleftrightarrow> t = []"
  by (simp add: get_latest_cases)

lemma latest_SomeI:
  "l \<in> ad_date ` set t \<Longrightarrow> \<forall>x\<in>set t. ad_date x \<le> l \<Longrightarrow> get_latest_ad_date t = Some l"
  by (auto simp: get_latest_cases intro!: Max_eqI)

lemma latest_SomeD:
  assumes "get_latest_ad_date t = Some l"
  shows "l \<in> ad_date ` set t" and "\<forall>x\<in>set t. ad_date x \<le> l"
proof -
  from assms have ne: "t \<noteq> []" and l: "l = Max (ad_date ` set t)"
    by (auto simp: get_latest_cases split: if_splits)
  from ne have "Max (ad_date ` set t) \<in> ad_date ` set t"
    by (intro Max_in) auto
  with l show "l \<in> ad_date ` set t" by simp
  show "\<forall>x\<in>set t. ad_date x \<le> l" unfolding l by (auto intro: Max_ge)
qed

lemma survivors_None: "get_latest_ad_date t = None \<Longrightarrow> survivors t incoming = incoming"
  by (simp add: survivors_def)

lemma survivors_Some:
  "get_latest_ad_date t = Some l \<Longrightarrow>
   survivors t incoming = filter (\<lambda>r. l < ad_date r) incoming"
  by (simp add: survivors_def)

lemma sort_key_Nil_iff: "sort_key f rs = [] \<longleftrightarrow> rs = []"
  by (metis length_sort length_0_conv)

lemma latest_sort_key:
  "get_latest_ad_date (sort_key ad_date rs) = get_latest_ad_date rs"
  by (simp add: get_latest_cases sort_key_Nil_iff)

lemma latest_append_survivors:
  assumes "survivors t incoming \<noteq> []"
  shows "get_latest_ad_date (t @ survivors t incoming) =
         max (get_latest_ad_date t) (get_latest_ad_date incoming)"
proof (cases "get_latest_ad_date t")
  case None
  then have "t = []" by (simp add: latest_None_iff)
  with None show ?thesis by (simp add: survivors_None max_option_simps)
next
  case (Some l)
  let ?s = "filter (\<lambda>r. l < ad_date r) incoming"
  have s: "survivors t incoming = ?s" using Some by (rule survivors_Some)
  with assms obtain r where r: "r \<in> set incoming" "l < ad_date r"
    by (auto simp: filter_empty_conv)
  then have "incoming \<noteq> []" by auto
  then obtain m where m: "get_latest_ad_date incoming = Some m"
    by (cases "get_latest_ad_date incoming") (auto simp: latest_None_iff)
  note mD = latest_SomeD [OF m] and lD = latest_SomeD [OF Some]
  from r mD(2) have lm: "l < m" by force
  from mD(1) obtain x where x: "x \<in> set incoming" "ad_date x = m" by auto
  with lm have "x \<in> set ?s" by simp
  with x have "m \<in> ad_date ` set (t @ ?s)" by force
  moreover have "\<forall>y\<in>set (t @ ?s). ad_date y \<le> m"
    using lD(2) mD(2) lm by fastforce
  ultimately have "get_latest_ad_date (t @ ?s) = Some m" by (rule latest_SomeI)
  moreover from lm have "max l m = m" by (auto simp: max_def)
  ultimately show ?thesis using Some m s by (simp add: max_option_simps)
qed

lemma latest_no_survivors:
  assumes "survivors t incoming = []"
  shows "get_latest_ad_date t = max (get_latest_ad_date t) (get_latest_ad_date incoming)"
proof (cases "get_latest_ad_date t")
  case None
  with assms show ?thesis
    by (simp add: survivors_None max_option_simps get_latest_ad_date_def)
next
  case (Some l)
  show ?thesis
  proof (cases "get_latest_ad_date incoming")
    case None
    then show ?thesis by (simp add: max_option_simps)
  next
    case m: (Some m)
    from latest_SomeD(1) [OF m] obtain x where x: "x \<in> set incoming" "ad_date x = m" by auto
    from assms Some have "\<forall>y\<in>set incoming. \<not> l < ad_date y"
      by (simp add: survivors_Some filter_empty_conv)
    with x have "max l m = l" by (auto simp: max_def)
    then show ?thesis using Some m by (simp add: max_option_simps)
  qed
qed

text \<open>
  C3, as amended. When the periods of the existing table \<open>A\<close> and of the incoming
  records that pass the date filter are pairwise distinct, the latest date of the merged
  table is the maximum of the latest dates of \<open>A\<close> and of the incoming records, the
  empty table counting as \<open>None\<close>, the least element.
\<close>

theorem latest_of_merge:
  assumes "distinct (map draw (A @ survivors A (concat B)))"
  shows "get_latest_ad_date (merge A B) =
         max (get_latest_ad_date A) (get_latest_ad_date (concat B))"
proof (cases "survivors A (concat B) = []")
  case True
  then show ?thesis using latest_no_survivors [OF True] by (simp add: merge_eq)
next
  case False
  have "keep_first (A @ survivors A (concat B)) = A @ survivors A (concat B)"
    using assms by (rule keep_first_distinct)
  then show ?thesis using False latest_append_survivors [OF False]
    by (simp add: merge_eq latest_sort_key)
qed



lemma survivors_subset: "set (survivors t incoming) \<subseteq> set incoming"
  by (auto simp: survivors_def)


lemma set_merge_subset: "set (merge t months) \<subseteq> set t \<union> set (concat months)"
proof -
  have "set (keep_first (t @ survivors t (concat months))) \<subseteq> set t \<union> set (concat months)"
    using set_keep_first_subset [of "t @ survivors t (concat months)"]
      survivors_subset [of t "concat months"] by auto
  then show ?thesis by (auto simp: merge_eq)
qed

lemma latest_mono:
  assumes "set r \<subseteq> set x"
  shows "get_latest_ad_date r \<le> get_latest_ad_date x"
proof (cases "get_latest_ad_date r")
  case None
  then show ?thesis by simp
next
  case (Some l)
  from latest_SomeD(1) [OF Some] assms obtain y where y: "y \<in> set x" "ad_date y = l" by auto
  then have "x \<noteq> []" by auto
  then obtain m where m: "get_latest_ad_date x = Some m"
    by (cases "get_latest_ad_date x") (auto simp: latest_None_iff)
  from latest_SomeD(2) [OF m] y have "l \<le> m" by auto
  with Some m show ?thesis by simp
qed

lemma latest_append:
  "get_latest_ad_date (a @ b) = max (get_latest_ad_date a) (get_latest_ad_date b)"
proof (rule antisym)
  show "max (get_latest_ad_date a) (get_latest_ad_date b) \<le> get_latest_ad_date (a @ b)"
    by (simp add: latest_mono)
next
  show "get_latest_ad_date (a @ b) \<le> max (get_latest_ad_date a) (get_latest_ad_date b)"
  proof (cases "get_latest_ad_date (a @ b)")
    case None
    then show ?thesis by simp
  next
    case (Some l)
    from latest_SomeD(1) [OF Some] obtain y where y: "y \<in> set a \<union> set b" "ad_date y = l"
      by auto
    then have "Some l \<le> get_latest_ad_date a \<or> Some l \<le> get_latest_ad_date b"
      using latest_mono [of "[y]" a] latest_mono [of "[y]" b]
      by (auto simp: get_latest_ad_date_def)
    with Some show ?thesis by (auto simp: le_max_iff_disj)
  qed
qed

text \<open>Without any condition the merged table is never later than both inputs.\<close>

lemma latest_of_merge_le:
  "get_latest_ad_date (merge A B) \<le> max (get_latest_ad_date A) (get_latest_ad_date (concat B))"
proof -
  have "set (merge A B) \<subseteq> set (A @ concat B)"
    using set_merge_subset [of A B] by simp
  then have "get_latest_ad_date (merge A B) \<le> get_latest_ad_date (A @ concat B)"
    by (rule latest_mono)
  then show ?thesis by (simp only: latest_append)
qed


text \<open>
  C8. When a run finds no new record and the loaded table is not empty, \<^verbatim>\<open>to_csv\<close> is
  not called, the file is what it was, and the outcome is the message that the data is
  already up to date.
\<close>

theorem no_new_records_no_write:
  assumes "fst (crawl_months (get_latest_ad_date (get_existing_data_df file)) months ([], 0)) = []"
    and "get_existing_data_df file \<noteq> []"
  shows "crawl_and_save_daily_cash file months =
           (None, AlreadyUpToDate (length (get_existing_data_df file))) \<and>
         file_after file (crawl_and_save_daily_cash file months) = file"
proof -
  obtain new n where c:
    "crawl_months (get_latest_ad_date (get_existing_data_df file)) months ([], 0) = (new, n)"
    by (cases "crawl_months (get_latest_ad_date (get_existing_data_df file)) months ([], 0)")
  with assms(1) have "new = []" by simp
  with c assms(2) show ?thesis
    by (simp add: crawl_and_save_daily_cash_def file_after_def Let_def)
qed

lemmas run_simps = merge_def crawl_and_save_daily_cash_def file_after_def
  get_existing_data_df_def get_latest_ad_date_def is_newer_def sort_values_def


text \<open>
  Counterexample to C3 as stated: an incoming record that repeats a stored period under
  a later date passes the date filter and is then dropped as a duplicate, so the latest
  date of the merged table stays that of the existing one.
\<close>

theorem latest_of_merge_counterexample:
  "get_latest_ad_date (merge [row_a] [[row_a_late]]) \<noteq>
   max (get_latest_ad_date [row_a]) (get_latest_ad_date (concat [[row_a_late]]))"
  by (simp add: run_simps max_option_simps)

text \<open>Witness for C3 as amended.\<close>

theorem latest_of_merge_witness:
  "distinct (map draw ([row_a, row_b] @ survivors [row_a, row_b] (concat [[row_a, row_b], [row_c]]))) \<and>
   get_latest_ad_date (merge [row_a, row_b] [[row_a, row_b], [row_c]]) =
     max (get_latest_ad_date [row_a, row_b]) (get_latest_ad_date (concat [[row_a, row_b], [row_c]])) \<and>
   get_latest_ad_date (merge [row_a, row_b] [[row_a, row_b], [row_c]]) = Some (2024, 2, 1)"
  using latest_of_merge [of "[row_a, row_b]" "[[row_a, row_b], [row_c]]"]
  by (simp add: survivors_def run_simps)


text \<open>Witness for C8: the month of the latest stored record is fetched again.\<close>

theorem no_new_records_no_write_witness:
  "fst (crawl_months (get_latest_ad_date (get_existing_data_df (Some [row_a, row_b])))
          [[row_a, row_b]] ([], 0)) = [] \<and>
   get_existing_data_df (Some [row_a, row_b]) \<noteq> [] \<and>
   crawl_and_save_daily_cash (Some [row_a, row_b]) [[row_a, row_b]] = (None, AlreadyUpToDate 2) \<and>
   file_after (Some [row_a, row_b])
     (crawl_and_save_daily_cash (Some [row_a, row_b]) [[row_a, row_b]]) = Some [row_a, row_b]"
  using no_new_records_no_write [of "Some [row_a, row_b]" "[[row_a, row_b]]"]
  by (simp add: run_simps)

section \<open>Properties of the fetcher\<close>

lemma crawl_daily_cash_request_failed:
  "network year_month = RequestFailed \<Longrightarrow>
   crawl_daily_cash network year_month = Inr (JObject [])"
  by (simp add: crawl_daily_cash_def)

lemma crawl_daily_cash_http_error:
  "network year_month = Response status_code body \<Longrightarrow> 400 \<le> status_code \<Longrightarrow>
   status_code < 600 \<Longrightarrow> crawl_daily_cash network year_month = Inr (JObject [])"
  by (simp add: crawl_daily_cash_def)

lemma crawl_daily_cash_not_json:
  "network year_month = Response status_code None \<Longrightarrow>
   crawl_daily_cash network year_month = Inr (JObject [])"
  by (simp add: crawl_daily_cash_def)

lemma crawl_daily_cash_api_error:
  "network year_month = Response status_code (Some (JObject data)) \<Longrightarrow>
   \<not> py_eq_zero (dict_get data ''rtCode'' JNull) \<Longrightarrow>
   crawl_daily_cash network year_month = Inr (JObject [])"
  by (simp add: crawl_daily_cash_def)

lemma crawl_daily_cash_success:
  "network year_month = Response status_code (Some (JObject data)) \<Longrightarrow>
   \<not> (400 \<le> status_code \<and> status_code < 600) \<Longrightarrow>
   py_eq_zero (dict_get data ''rtCode'' JNull) \<Longrightarrow>
   crawl_daily_cash network year_month = Inr (dict_get data ''content'' (JObject []))"
  by (auto simp: crawl_daily_cash_def)

text \<open>
  The request raises to its caller exactly when a response without an error status
  carries a JSON value that is not an object; the error is then \<^verbatim>\<open>AttributeError\<close>.
\<close>

lemma crawl_daily_cash_raises_iff:
  "(\<exists>e. crawl_daily_cash network year_month = Inl e) \<longleftrightarrow>
   (\<exists>status_code v. network year_month = Response status_code (Some v) \<and>
      \<not> (400 \<le> status_code \<and> status_code < 600) \<and> (\<forall>data. v \<noteq> JObject data))"
  by (auto simp: crawl_daily_cash_def split: transport.splits option.splits json.splits)

text \<open>
  C9. The single-page request is to return an empty result on every failure and never
  raise to its caller. It does so on a transport failure, an error status, a body that
  is not JSON and an API status other than zero (the lemmas above), but a body that is
  valid JSON and not an object, here the empty array under status 200, makes
  \<^verbatim>\<open>data.get\<close> raise \<^verbatim>\<open>AttributeError\<close>, which neither handler catches.
\<close>

theorem crawl_daily_cash_array_body_raises:
  "crawl_daily_cash (\<lambda>month. Response 200 (Some (JArray []))) ''2024-01'' = Inl AttributeError"
  by (simp add: crawl_daily_cash_def)

section \<open>Properties of the normalizer\<close>

lemma fromisoformat_error: "fromisoformat s = Inl e \<Longrightarrow> e = ValueError"
  by (auto simp: fromisoformat_def split: if_splits option.splits)

lemma process_item_error: "process_item item = Inl e \<Longrightarrow> e = KeyError \<or> e = ValueError"
  by (auto simp: process_item_def Let_def dest: fromisoformat_error
      split: option.splits sum.splits prod.splits)

text \<open>A malformed item is skipped: the batch itself never fails.\<close>

lemma process_daily_cash_data_returns: "\<exists>rows. process_daily_cash_data raw_data = Inr rows"
proof (induction raw_data)
  case Nil
  then show ?case by simp
next
  case (Cons item raw_data)
  then show ?case
    by (cases "process_item item") (auto dest: process_item_error)
qed

text \<open>Every record of the batch is the record of one of its items.\<close>

lemma process_daily_cash_data_origin:
  "process_daily_cash_data raw_data = Inr rows \<Longrightarrow> r \<in> set rows \<Longrightarrow>
   \<exists>item\<in>set raw_data. process_item item = Inr r"
proof (induction raw_data arbitrary: rows)
  case Nil
  then show ?case by simp
next
  case (Cons item raw_data)
  then show ?case
    by (cases "process_item item") (auto split: if_splits sum.splits)
qed

















section \<open>Properties of the statistics engine\<close>

lemma scenario_latest_two:
  "get_latest_n_draws scenario 2 = [[10, 11, 20, 21, 39], [2, 4, 6, 8, 10]]"
  by (simp add: get_latest_n_draws_def tail_def)

lemma target_df_Nil: "target_df [] w = []"
  by (simp add: target_df_def get_latest_n_draws_def split: option.splits)

lemma map_of_value_counts:
  "map_of (value_counts xs) k = (if k \<in> set xs then Some (count_list xs k) else None)"
  by (simp add: value_counts_def map_of_map_restrict restrict_map_def)

lemma keys_series_update: "map fst (series_update full other) = map fst full"
  by (induction full) (auto simp: series_update_def split: option.splits)

lemma map_of_series_update:
  "map_of (series_update (map (\<lambda>k. (k, 0)) ks) other) k =
     (if k \<in> set ks then Some (case map_of other k of None \<Rightarrow> 0 | Some c \<Rightarrow> c) else None)"
  by (induction ks) (auto simp: series_update_def split: option.splits)

lemma map_of_counted:
  "map_of (series_update (map (\<lambda>k. (k, 0)) ks) (value_counts xs)) k =
     (if k \<in> set ks then Some (count_list xs k) else None)"
  by (simp add: map_of_series_update map_of_value_counts)

text \<open>
  C5, as amended. For every table and every window that is not empty, the frequency query
  returns a mapping whose keys are exactly 1 to 39 and the last-digit query one whose
  keys are exactly 0 to 9, each key with the number of its occurrences in the window,
  which is 0 for a key that never occurs.
\<close>

theorem frequency_fixed_domain:
  assumes "target_df df num_draws \<noteq> []"
  shows "map fst (calculate_frequency df num_draws) = [1..39] \<and>
         (\<forall>k. map_of (calculate_frequency df num_draws) k =
            (if 1 \<le> k \<and> k \<le> 39
             then Some (count_list (concat (target_df df num_draws)) k) else None)) \<and>
         map fst (analyze_last_digits df num_draws) = [0..9] \<and>
         (\<forall>d. map_of (analyze_last_digits df num_draws) d =
            (if 0 \<le> d \<and> d \<le> 9
             then Some (count_list (map (\<lambda>n. n mod 10) (concat (target_df df num_draws))) d)
             else None))"
proof -
  have "concat (map (map (\<lambda>n. n mod 10)) (target_df df num_draws)) =
        map (\<lambda>n. n mod 10) (concat (target_df df num_draws))"
    by (simp add: map_concat)
  then show ?thesis using assms
    by (simp add: calculate_frequency_def analyze_last_digits_def Let_def keys_series_update
        map_of_counted comp_def)
qed

text \<open>
  Counterexample to C5 as stated: on the empty table, and on the empty window of a table
  that is not empty, both queries return the empty mapping, which has none of the keys.
\<close>

theorem frequency_fixed_domain_counterexample:
  "calculate_frequency [] None = [] \<and> analyze_last_digits [] None = [] \<and>
   calculate_frequency scenario (Some 0) = [] \<and>
   map_of (calculate_frequency [] None) 1 = None \<and>
   map_of (analyze_last_digits [] None) 0 = None"
  by (simp add: calculate_frequency_def analyze_last_digits_def target_df_def
      get_latest_n_draws_def tail_def)

text \<open>Witness for C5 as amended, on the three draws of the scenario.\<close>

theorem frequency_fixed_domain_witness:
  "target_df scenario None \<noteq> [] \<and>
   map fst (calculate_frequency scenario None) = [1..39] \<and>
   map_of (calculate_frequency scenario None) 2 = Some 2 \<and>
   map_of (calculate_frequency scenario None) 39 = Some 1 \<and>
   map_of (calculate_frequency scenario None) 7 = Some 0 \<and>
   map_of (calculate_frequency scenario None) 40 = None \<and>
   map fst (analyze_last_digits scenario None) = [0..9] \<and>
   map_of (analyze_last_digits scenario None) 0 = Some 3 \<and>
   map_of (analyze_last_digits scenario None) 7 = Some 0"
  using frequency_fixed_domain [of scenario None]
  by (simp add: target_df_def)

text \<open>
  C7. On the empty table every query returns its empty form, whatever the window asked
  for: the empty mapping for the frequencies and the last digits, empty ratio lists and
  empty count mappings, an empty pattern mapping with a zero count, no draw for the
  latest-N selector; sum analysis returns \<^verbatim>\<open>None\<close> for the mean, the median, the
  standard deviation, the minimum and the maximum with an empty list of sums, and does so
  on every empty window.
\<close>

theorem empty_table_queries:
  "calculate_frequency [] w = [] \<and>
   analyze_last_digits [] w = [] \<and>
   calculate_sum_analysis [] w =
     [(''sums'', PyIntList []), (''mean_sum'', PyNone), (''median_sum'', PyNone),
      (''std_dev_sum'', PyNone), (''min_sum'', PyNone), (''max_sum'', PyNone)] \<and>
   calculate_odd_even_big_small_ratios [] w =
     [(''odd_even_ratios'', PyStrList []), (''big_small_ratios'', PyStrList []),
      (''odd_even_counts'', PyDict []), (''big_small_counts'', PyDict [])] \<and>
   analyze_consecutive_numbers [] w =
     [(''consecutive_patterns'', PyDict []), (''total_draws_with_consecutive'', PyInt 0)] \<and>
   get_latest_n_draws ([] :: frame) n = [] \<and>
   (target_df df w = [] \<longrightarrow>
      calculate_sum_analysis df w =
        [(''sums'', PyIntList []), (''mean_sum'', PyNone), (''median_sum'', PyNone),
         (''std_dev_sum'', PyNone), (''min_sum'', PyNone), (''max_sum'', PyNone)])"
  by (simp add: calculate_frequency_def analyze_last_digits_def calculate_sum_analysis_def
      calculate_odd_even_big_small_ratios_def analyze_consecutive_numbers_def target_df_Nil
      get_latest_n_draws_def)

text \<open>Witness for C7: the window of zero draws of a table that is not empty.\<close>

theorem empty_table_queries_witness:
  "target_df scenario (Some 0) = [] \<and>
   calculate_sum_analysis scenario (Some 0) =
     [(''sums'', PyIntList []), (''mean_sum'', PyNone), (''median_sum'', PyNone),
      (''std_dev_sum'', PyNone), (''min_sum'', PyNone), (''max_sum'', PyNone)]"
  using empty_table_queries [where df = scenario and w = "Some 0"]
  by (simp add: target_df_def get_latest_n_draws_def tail_def)

text \<open>
  C10. The keys of the result of the odd/even and big/small query depend on the window:
  when it is not empty the two distributions are under \<^verbatim>\<open>odd_even_distribution\<close> and
  \<^verbatim>\<open>big_small_distribution\<close>; when it is empty, as it is on the empty table, the result
  has the keys \<^verbatim>\<open>odd_even_counts\<close> and \<^verbatim>\<open>big_small_counts\<close> in their place, and
  reading either distribution key raises \<^verbatim>\<open>KeyError\<close>.
\<close>

theorem ratios_key_sets:
  "map fst (calculate_odd_even_big_small_ratios df w) =
     (if target_df df w = []
      then [''odd_even_ratios'', ''big_small_ratios'', ''odd_even_counts'',
            ''big_small_counts'']
      else [''odd_even_ratios'', ''big_small_ratios'', ''odd_even_distribution'',
            ''big_small_distribution'']) \<and>
   (target_df df w \<noteq> [] \<longrightarrow>
      (\<exists>oe bs.
         py_getitem (calculate_odd_even_big_small_ratios df w) ''odd_even_distribution'' =
           Inr (PyDict oe) \<and>
         py_getitem (calculate_odd_even_big_small_ratios df w) ''big_small_distribution'' =
           Inr (PyDict bs))) \<and>
   (target_df df w = [] \<longrightarrow>
      py_getitem (calculate_odd_even_big_small_ratios df w) ''odd_even_distribution'' =
        Inl KeyError \<and>
      py_getitem (calculate_odd_even_big_small_ratios df w) ''big_small_distribution'' =
        Inl KeyError) \<and>
   target_df ([] :: frame) w = []"
  by (simp add: calculate_odd_even_big_small_ratios_def target_df_Nil py_getitem_def
      split: prod.splits)

text \<open>Witness for C10.\<close>

theorem ratios_key_sets_witness:
  "target_df scenario None \<noteq> [] \<and>
   map fst (calculate_odd_even_big_small_ratios scenario None) =
     [''odd_even_ratios'', ''big_small_ratios'', ''odd_even_distribution'',
      ''big_small_distribution''] \<and>
   target_df ([] :: frame) None = [] \<and>
   map fst (calculate_odd_even_big_small_ratios [] None) =
     [''odd_even_ratios'', ''big_small_ratios'', ''odd_even_counts'', ''big_small_counts''] \<and>
   py_getitem (calculate_odd_even_big_small_ratios [] None) ''odd_even_distribution'' =
     Inl KeyError \<and>
   py_getitem (calculate_odd_even_big_small_ratios [] None) ''big_small_distribution'' =
     Inl KeyError"
  using ratios_key_sets [where df = scenario and w = None]
    ratios_key_sets [where df = "[]" and w = None]
  by (simp add: target_df_def)












end
